theory Spec2Isabelle
  imports Complex_Main "HOL-Library.Log_Nat" "HOL-Library.Product_Lexorder"
begin

section \<open>Seistrack power analysis: the calibration and aggregation pipeline\<close>

text \<open>
  The program is one Streamlit script, \<^verbatim>\<open>Seistrack_Daily.py\<close>, executed from top to
  bottom on every run in a fresh namespace. The embedding follows the script from the
  point where the uploaded table has its four required columns (line 113) to the
  harvest-versus-grid split (line 427). A data frame is the list of its rows in storage
  order, a column is the list of its cells, and a variable that an aborted assignment
  leaves unbound is an \<open>option\<close>. The charts (lines 271--286, 305--322, 372 and
  406--420) are drawn from the values computed here; drawing them is not modelled.
\<close>

subsection \<open>Python floats\<close>

text \<open>
  Every number of the script is a Python \<^verbatim>\<open>float\<close> (the widgets are created with float
  defaults, the columns are \<^verbatim>\<open>float64\<close> after calibration). A float is modelled by the
  real number it denotes, and every arithmetic operation rounds its exact result:
  \<^item> \<open>Exact\<close> rounds nothing (arithmetic on the reals);
  \<^item> \<open>Binary64\<close> rounds to the nearest number with a 53-bit significand, ties to
    the even significand, as IEEE 754 double precision does between the magnitudes \<^verbatim>\<open>2**-1022\<close> and
    \<^verbatim>\<open>2**1024\<close>. The exponent is unbounded: gradual underflow and overflow to
    infinity are outside the model.
  The one \<^verbatim>\<open>NaN\<close> of the script is the missing cell of a numeric column; it is the
  \<open>None\<close> of a \<open>cell\<close> below.
\<close>

datatype arith = Exact | Binary64

definition rne :: "real \<Rightarrow> int" where
  "rne x = (let f = \<lfloor>x\<rfloor>; d = x - of_int f in
     if d < 1 / 2 then f else if 1 / 2 < d then f + 1 else if even f then f else f + 1)"

definition fl64 :: "real \<Rightarrow> real" where
  "fl64 x =
     (if x = 0 then 0
      else if 1 \<le> \<bar>x\<bar> then
        (let k = nat (bitlen \<lfloor>\<bar>x\<bar>\<rfloor>) in
           if 53 \<le> k then of_int (rne (x / 2 ^ (k - 53))) * 2 ^ (k - 53)
           else of_int (rne (x * 2 ^ (53 - k))) / 2 ^ (53 - k))
      else
        (let j = nat (bitlen \<lfloor>1 / \<bar>x\<bar>\<rfloor>) in
           of_int (rne (x * 2 ^ (j + 52))) / 2 ^ (j + 52)))"

fun rnd :: "arith \<Rightarrow> real \<Rightarrow> real" where
  "rnd Exact x = x"
| "rnd Binary64 x = fl64 x"

datatype py_exception =
    ZeroDivisionError | NameError | ValueError | KeyError
  | StopException | StreamlitInvalidMinMaxError

definition fadd :: "arith \<Rightarrow> real \<Rightarrow> real \<Rightarrow> real" where
  "fadd ar x y = rnd ar (x + y)"

definition fsub :: "arith \<Rightarrow> real \<Rightarrow> real \<Rightarrow> real" where
  "fsub ar x y = rnd ar (x - y)"

definition fmul :: "arith \<Rightarrow> real \<Rightarrow> real \<Rightarrow> real" where
  "fmul ar x y = rnd ar (x * y)"

text \<open>Python's \<^verbatim>\<open>/\<close> on two floats raises \<^verbatim>\<open>ZeroDivisionError\<close> on a zero divisor.\<close>

definition py_truediv :: "arith \<Rightarrow> real \<Rightarrow> real \<Rightarrow> py_exception + real" where
  "py_truediv ar x y = (if y = 0 then Inl ZeroDivisionError else Inr (rnd ar (x / y)))"

subsection \<open>Calibration (lines 153--172)\<close>

record params =
  scale :: real
  offset :: real

text \<open>
  Lines 155--156: \<^verbatim>\<open>m = (max_actual - min_actual) / (max_meter - min_meter)\<close> and
  \<^verbatim>\<open>b = min_actual - (m * min_meter)\<close>. The division raises before \<^verbatim>\<open>m\<close> is bound.
\<close>

definition compute_params ::
  "arith \<Rightarrow> real \<Rightarrow> real \<Rightarrow> real \<Rightarrow> real \<Rightarrow> py_exception + params" where
  "compute_params ar min_meter max_meter min_actual max_actual =
     (case py_truediv ar (fsub ar max_actual min_actual) (fsub ar max_meter min_meter) of
        Inl e \<Rightarrow> Inl e
      | Inr m \<Rightarrow> Inr \<lparr>scale = m, offset = fsub ar min_actual (fmul ar m min_meter)\<rparr>)"

text \<open>Line 165: \<^verbatim>\<open>adjusted_value = m * reading_input + b\<close>.\<close>

definition evaluate :: "arith \<Rightarrow> params \<Rightarrow> real \<Rightarrow> real" where
  "evaluate ar p reading_input = fadd ar (fmul ar (scale p) reading_input) (offset p)"

subsection \<open>Rows and frames\<close>

text \<open>
  A row carries the four required columns. The three power columns are \<^verbatim>\<open>float64\<close>
  columns: a cell is a float or is missing (\<^verbatim>\<open>NaN\<close>). The type of the \<open>Time\<close> cell
  changes along the script: the cell as uploaded, then a timestamp or \<^verbatim>\<open>NaT\<close> (\<open>None\<close>)
  after parsing, then a timestamp once the rows without one are dropped.
\<close>

type_synonym cell = "real option"

record 't row =
  Time :: 't
  PV_W :: cell
  Meter_W :: cell
  Load_W :: cell

type_synonym 't frame = "'t row list"

datatype channel = PV | Meter | Load

text \<open>\<^verbatim>\<open>df_plot[col]\<close> for one of the three numeric columns, read at one row.\<close>

fun channel_value :: "channel \<Rightarrow> 't row \<Rightarrow> cell" where
  "channel_value PV r = PV_W r"
| "channel_value Meter r = Meter_W r"
| "channel_value Load r = Load_W r"

text \<open>The cells of a column that hold a value, and the column with \<open>0\<close> for the others.\<close>

definition present :: "'a option list \<Rightarrow> 'a list" where
  "present cells = List.map_filter (\<lambda>c. c) cells"

definition fill0 :: "cell list \<Rightarrow> real list" where
  "fill0 cells = map (\<lambda>c. case c of None \<Rightarrow> 0 | Some v \<Rightarrow> v) cells"

subsection \<open>Time parsing and cleaning (lines 113--117 and 130)\<close>

text \<open>
  Line 114: \<^verbatim>\<open>pd.to_datetime(df_raw["Time"], errors="coerce")\<close>. The parser belongs to
  pandas and is a parameter here. It receives the whole column, since the format it reads
  the cells with is inferred from the column; it either raises, with a message, or gives
  for each position of the column a timestamp or, for a cell that cannot be parsed,
  \<^verbatim>\<open>NaT\<close> (\<open>None\<close>). When it raises, lines 115--117 show the message and stop the run.
\<close>

type_synonym ('c, 't) parser = "'c list \<Rightarrow> string + (nat \<Rightarrow> 't option)"

definition to_datetime :: "('c, 't) parser \<Rightarrow> 'c frame \<Rightarrow> string + 't option frame" where
  "to_datetime parse df =
     (case parse (map Time df) of
        Inl message \<Rightarrow> Inl message
      | Inr stamps \<Rightarrow>
          Inr (map (\<lambda>k. \<lparr>Time = stamps k, PV_W = PV_W (df ! k), Meter_W = Meter_W (df ! k),
                          Load_W = Load_W (df ! k)\<rparr>) [0..<length df]))"

text \<open>Line 130: \<^verbatim>\<open>df_raw.dropna(subset=["Time"], inplace=True)\<close>.\<close>

definition dropna :: "'t option frame \<Rightarrow> 't frame" where
  "dropna df =
     List.map_filter
       (\<lambda>r. case Time r of
              None \<Rightarrow> None
            | Some t \<Rightarrow> Some \<lparr>Time = t, PV_W = PV_W r, Meter_W = Meter_W r, Load_W = Load_W r\<rparr>)
       df"

subsection \<open>Applying the calibration (lines 170--172)\<close>

text \<open>
  \<^verbatim>\<open>df_raw["PV(W)"] = m * df_raw["PV(W)"] + b\<close>, and the same statement for
  \<^verbatim>\<open>"Meter(W)"\<close> and \<^verbatim>\<open>"Load(W)"\<close>. A missing cell stays missing.
\<close>

definition apply_calibration :: "arith \<Rightarrow> params \<Rightarrow> 't frame \<Rightarrow> 't frame" where
  "apply_calibration ar p df =
     map (\<lambda>r. r\<lparr>PV_W := map_option (\<lambda>v. fadd ar (fmul ar (scale p) v) (offset p)) (PV_W r),
                Meter_W := map_option (\<lambda>v. fadd ar (fmul ar (scale p) v) (offset p)) (Meter_W r),
                Load_W := map_option (\<lambda>v. fadd ar (fmul ar (scale p) v) (offset p)) (Load_W r)\<rparr>) df"

subsection \<open>The reductions of a series\<close>

text \<open>
  \<^verbatim>\<open>Series.sum\<close> replaces the missing cells by \<open>0\<close> and adds the column with NumPy's
  \<^verbatim>\<open>add.reduce\<close>, which starts from \<open>0\<close> and adds the cells in this order: fewer than
  eight cells one after the other; up to 128 cells in eight running sums, cell \<open>i\<close> into
  sum \<open>i mod 8\<close> as long as eight cells are left, the eight sums then added in pairs and
  the remaining cells one after the other; more than 128 cells as the sum of two parts,
  the first of which has a multiple of eight cells.
\<close>

definition combine8 :: "arith \<Rightarrow> real list \<Rightarrow> real" where
  "combine8 ar r =
     fadd ar (fadd ar (fadd ar (r ! 0) (r ! 1)) (fadd ar (r ! 2) (r ! 3)))
             (fadd ar (fadd ar (r ! 4) (r ! 5)) (fadd ar (r ! 6) (r ! 7)))"

function accumulate8 :: "arith \<Rightarrow> real list \<Rightarrow> real list \<Rightarrow> real list \<times> real list" where
  "accumulate8 ar r xs =
     (if length xs < 8 then (r, xs)
      else accumulate8 ar (map2 (fadd ar) r (take 8 xs)) (drop 8 xs))"
  by pat_completeness auto
termination
  by (relation "measure (\<lambda>(ar, r, xs). length xs)") auto

definition half8 :: "nat \<Rightarrow> nat" where
  "half8 n = n div 2 - (n div 2) mod 8"

function pairwise_sum :: "arith \<Rightarrow> real list \<Rightarrow> real" where
  "pairwise_sum ar xs =
     (if length xs < 8 then foldl (fadd ar) 0 xs
      else if length xs \<le> 128 then
        (case accumulate8 ar (take 8 xs) (drop 8 xs) of
           (r, rest) \<Rightarrow> foldl (fadd ar) (combine8 ar r) rest)
      else fadd ar (pairwise_sum ar (take (half8 (length xs)) xs))
                   (pairwise_sum ar (drop (half8 (length xs)) xs)))"
  by pat_completeness auto
termination
  by (relation "measure (\<lambda>(ar, xs). length xs)") (auto simp: half8_def)

declare accumulate8.simps [simp del]
declare pairwise_sum.simps [simp del]

definition series_sum :: "arith \<Rightarrow> cell list \<Rightarrow> real" where
  "series_sum ar cells = fadd ar 0 (pairwise_sum ar (fill0 cells))"

text \<open>
  \<^verbatim>\<open>min\<close> and \<^verbatim>\<open>max\<close> are taken over the cells that hold a value and are \<^verbatim>\<open>NaN\<close>
  (\<^verbatim>\<open>NaT\<close> for timestamps), here \<open>None\<close>, when there is none. \<^verbatim>\<open>mean\<close> is the sum
  divided by the number of cells that hold a value, and \<^verbatim>\<open>NaN\<close> when there is none
  (the reduction of pandas itself, as it runs without the optional bottleneck library).
\<close>

fun series_min :: "'a::linorder list \<Rightarrow> 'a option" where
  "series_min [] = None"
| "series_min (x # xs) = Some (fold min xs x)"

fun series_max :: "'a::linorder list \<Rightarrow> 'a option" where
  "series_max [] = None"
| "series_max (x # xs) = Some (fold max xs x)"

definition series_mean :: "arith \<Rightarrow> cell list \<Rightarrow> real option" where
  "series_mean ar cells =
     (if present cells = [] then None
      else Some (rnd ar (series_sum ar cells / real (length (present cells)))))"

subsection \<open>Summary statistics (lines 197--217)\<close>

text \<open>Lines 197--199: the three derived kilowatt columns.\<close>

definition PV_KW :: "arith \<Rightarrow> 't frame \<Rightarrow> cell list" where
  "PV_KW ar df = map (\<lambda>r. map_option (\<lambda>v. rnd ar (v / 1000)) (PV_W r)) df"

definition Load_KW :: "arith \<Rightarrow> 't frame \<Rightarrow> cell list" where
  "Load_KW ar df = map (\<lambda>r. map_option (\<lambda>v. rnd ar (v / 1000)) (Load_W r)) df"

definition Meter_KW_abs :: "arith \<Rightarrow> 't frame \<Rightarrow> cell list" where
  "Meter_KW_abs ar df = map (\<lambda>r. map_option (\<lambda>v. rnd ar (\<bar>v\<bar> / 1000)) (Meter_W r)) df"

record summary =
  total :: real
  minimum :: "real option"
  maximum :: "real option"
  average :: "real option"

text \<open>Lines 201--214: total, min, max and mean of one kilowatt column.\<close>

definition summarize :: "arith \<Rightarrow> 't frame \<Rightarrow> channel \<Rightarrow> summary" where
  "summarize ar df ch =
     (let kw = (case ch of PV \<Rightarrow> PV_KW ar df | Load \<Rightarrow> Load_KW ar df | Meter \<Rightarrow> Meter_KW_abs ar df)
      in \<lparr>total = series_sum ar kw, minimum = series_min (present kw),
          maximum = series_max (present kw), average = series_mean ar kw\<rparr>)"

text \<open>
  Line 217: \<^verbatim>\<open>df_plot["Time"].min().strftime("%b %d, %Y")\<close>. The minimum of no
  timestamps is \<^verbatim>\<open>NaT\<close>, whose \<^verbatim>\<open>strftime\<close> raises \<^verbatim>\<open>ValueError\<close>. The date is kept as
  the timestamp it is formatted from.
\<close>

definition representative_date :: "('t::linorder) frame \<Rightarrow> py_exception + 't" where
  "representative_date df =
     (case series_min (map Time df) of None \<Rightarrow> Inl ValueError | Some t \<Rightarrow> Inr t)"

subsection \<open>Exceptions in sequence\<close>

definition and_then :: "py_exception + 'a \<Rightarrow> ('a \<Rightarrow> py_exception + 'b) \<Rightarrow> py_exception + 'b" where
  "and_then x f = (case x of Inl e \<Rightarrow> Inl e | Inr v \<Rightarrow> f v)"

subsection \<open>Maximum and minimum markers (lines 291--322)\<close>

text \<open>
  The position of the first greatest and of the first least element of a list whose first
  element is given apart, as \<^verbatim>\<open>argmax\<close> and \<^verbatim>\<open>argmin\<close> of NumPy find them.
\<close>

fun argmax_from :: "'a::linorder \<Rightarrow> nat \<Rightarrow> nat \<Rightarrow> 'a list \<Rightarrow> nat" where
  "argmax_from best best_i i [] = best_i"
| "argmax_from best best_i i (x # xs) =
     (if best < x then argmax_from x i (Suc i) xs else argmax_from best best_i (Suc i) xs)"

fun argmin_from :: "'a::linorder \<Rightarrow> nat \<Rightarrow> nat \<Rightarrow> 'a list \<Rightarrow> nat" where
  "argmin_from best best_i i [] = best_i"
| "argmin_from best best_i i (x # xs) =
     (if x < best then argmin_from x i (Suc i) xs else argmin_from best best_i (Suc i) xs)"

text \<open>
  \<^verbatim>\<open>Series.idxmax\<close> skips the missing cells: it raises \<^verbatim>\<open>ValueError\<close> when no cell
  holds a value (also when there is no cell), and otherwise takes \<^verbatim>\<open>argmax\<close> of the
  column with minus infinity for the missing cells; \<^verbatim>\<open>Series.idxmin\<close> likewise with plus
  infinity and \<^verbatim>\<open>argmin\<close>. The pairs below, in lexicographic order, are the reals with
  the infinity: \<open>(1, v)\<close> is above and \<open>(0, v)\<close> is below every \<open>(0, 0)\<close> and \<open>(1, 0)\<close>
  that stands for it. After \<^verbatim>\<open>reset_index\<close> (line 182) the labels of \<^verbatim>\<open>df_plot\<close> are
  the positions \<open>0, 1, 2, \<dots>\<close>, and \<^verbatim>\<open>df_plot.loc\<close> raises \<^verbatim>\<open>KeyError\<close> for a label
  that no row has.
\<close>

definition minus_inf_fill :: "cell \<Rightarrow> nat \<times> real" where
  "minus_inf_fill c = (case c of None \<Rightarrow> (0, 0) | Some v \<Rightarrow> (1, v))"

definition plus_inf_fill :: "cell \<Rightarrow> nat \<times> real" where
  "plus_inf_fill c = (case c of None \<Rightarrow> (1, 0) | Some v \<Rightarrow> (0, v))"

definition idxmax :: "cell list \<Rightarrow> py_exception + nat" where
  "idxmax cells =
     (if present cells = [] then Inl ValueError
      else case map minus_inf_fill cells of
             [] \<Rightarrow> Inl ValueError
           | x # xs \<Rightarrow> Inr (argmax_from x 0 1 xs))"

definition idxmin :: "cell list \<Rightarrow> py_exception + nat" where
  "idxmin cells =
     (if present cells = [] then Inl ValueError
      else case map plus_inf_fill cells of
             [] \<Rightarrow> Inl ValueError
           | x # xs \<Rightarrow> Inr (argmin_from x 0 1 xs))"

definition loc :: "'a list \<Rightarrow> nat \<Rightarrow> py_exception + 'a" where
  "loc df i = (if i < length df then Inr (df ! i) else Inl KeyError)"

type_synonym 't point = "'t \<times> cell"

text \<open>
  The body of the loop for one column \<^verbatim>\<open>col\<close>: nothing is marked on a column without
  rows; otherwise the two rows are looked up by \<^verbatim>\<open>df_plot[col].abs()\<close> for
  \<^verbatim>\<open>"Meter(W)"\<close> and by \<^verbatim>\<open>df_plot[col]\<close> for the other two, and each marker takes the
  \<^verbatim>\<open>Time\<close> and the \<^verbatim>\<open>col\<close> cell of its row. The result is the pair (maximum point,
  minimum point).
\<close>

definition extrema :: "'t frame \<Rightarrow> channel \<Rightarrow> py_exception + ('t point \<times> 't point) option" where
  "extrema df col =
     (if df = [] then Inr None
      else
        let key = (if col = Meter then map (\<lambda>r. map_option abs (channel_value col r)) df
                   else map (channel_value col) df)
        in and_then (idxmax key) (\<lambda>max_idx.
           and_then (idxmin key) (\<lambda>min_idx.
           and_then (loc df max_idx) (\<lambda>max_row.
           and_then (loc df min_idx) (\<lambda>min_row.
             Inr (Some ((Time max_row, channel_value col max_row),
                        (Time min_row, channel_value col min_row))))))))"

text \<open>The loop over the three columns, skipping those that are not visible.\<close>

fun add_markers ::
  "(channel \<Rightarrow> bool) \<Rightarrow> 't frame \<Rightarrow> channel list
     \<Rightarrow> py_exception + (channel \<times> 't point \<times> 't point) list" where
  "add_markers visible df [] = Inr []"
| "add_markers visible df (col # cols) =
     (if \<not> visible col then add_markers visible df cols
      else and_then (extrema df col) (\<lambda>found.
           and_then (add_markers visible df cols) (\<lambda>rest.
             Inr (case found of None \<Rightarrow> rest | Some (mx, mn) \<Rightarrow> (col, mx, mn) # rest))))"

subsection \<open>Highlighting by range (lines 343--367)\<close>

text \<open>
  \<^verbatim>\<open>df_plot[(df_plot[col] >= lower) & (df_plot[col] <= upper)]\<close>, and the trace that is
  added only when the selection has rows. Both comparisons are false on a missing cell.
\<close>

definition filter_range :: "'t frame \<Rightarrow> channel \<Rightarrow> real \<Rightarrow> real \<Rightarrow> 't frame" where
  "filter_range df col lower upper =
     filter (\<lambda>r. case channel_value col r of
                    None \<Rightarrow> False
                  | Some v \<Rightarrow> lower \<le> v \<and> v \<le> upper) df"

definition highlight ::
  "bool \<Rightarrow> bool \<Rightarrow> 't frame \<Rightarrow> channel \<Rightarrow> real \<Rightarrow> real \<Rightarrow> (channel \<times> 't frame) list" where
  "highlight checked shown df col lower upper =
     (if checked \<and> shown then
        (let df_highlight = filter_range df col lower upper
         in if df_highlight \<noteq> [] then [(col, df_highlight)] else [])
      else [])"

subsection \<open>Harvest versus grid (lines 393--404)\<close>

record hg_split =
  solar_kw :: real
  grid_kw :: real
  load_kw :: real

text \<open>
  Line 393 selects the rows of the closed time range; an empty selection gives the warning
  of line 396 and no totals (\<open>None\<close>). Lines 398--400 are the variables \<^verbatim>\<open>total_pv\<close>,
  \<^verbatim>\<open>total_meter_abs\<close> and \<^verbatim>\<open>total_load\<close>.
\<close>

definition harvest_grid_split :: "arith \<Rightarrow> ('t::linorder) frame \<Rightarrow> 't \<Rightarrow> 't \<Rightarrow> hg_split option" where
  "harvest_grid_split ar df interval_start interval_end =
     (let df_total = filter (\<lambda>r. interval_start \<le> Time r \<and> Time r \<le> interval_end) df
      in if df_total = [] then None
         else
           let total_pv = rnd ar (series_sum ar (map PV_W df_total) / 1000);
               total_meter_abs =
                 rnd ar (series_sum ar (map (\<lambda>r. map_option abs (Meter_W r)) df_total) / 1000);
               total_load = fadd ar total_pv total_meter_abs
           in Some \<lparr>solar_kw = total_pv, grid_kw = total_meter_abs, load_kw = total_load\<rparr>)"

text \<open>
  Lines 401--404: the data of the chart. It has the two totals; \<^verbatim>\<open>total_load\<close> is not
  used after line 400.
\<close>

definition pie_data_total :: "hg_split \<Rightarrow> (string \<times> real) list" where
  "pie_data_total totals = [(''SOLAR'', solar_kw totals), (''GRID'', grid_kw totals)]"

subsection \<open>The script from line 113 to line 427\<close>

text \<open>
  A timestamp of pandas is a number of nanoseconds since the epoch.
  \<^verbatim>\<open>Timestamp.to_pydatetime\<close> (lines 384--385) drops what is below the microsecond.
\<close>

type_synonym timestamp = int

definition to_pydatetime :: "timestamp \<Rightarrow> timestamp" where
  "to_pydatetime t = t - t mod 1000"

text \<open>
  The state of every widget. The slider of line 386 starts on the whole range, \<open>None\<close>
  here, and lets the user choose only inside it.
\<close>

record widgets =
  min_meter :: real
  max_meter :: real
  min_actual :: real
  max_actual :: real
  reading_input :: real
  show_pv :: bool
  show_meter :: bool
  show_load :: bool
  highlight_pv :: bool
  pv_lower :: real
  pv_upper :: real
  highlight_meter :: bool
  meter_lower :: real
  meter_upper :: real
  highlight_load :: bool
  load_lower :: real
  load_upper :: real
  total_time_range :: "(timestamp \<times> timestamp) option"

text \<open>What the run shows in the messages of the script.\<close>

datatype ui =
    St_header string
  | St_success params
  | St_error string
  | St_reading real
  | St_warning string

text \<open>What a run that reaches the end has computed and shown.\<close>

record report =
  adjusted_value :: real
  df_plot :: "timestamp frame"
  load_summary :: summary
  pv_summary :: summary
  meter_summary :: summary
  data_date :: timestamp
  markers :: "(channel \<times> timestamp point \<times> timestamp point) list"
  highlights :: "(channel \<times> timestamp frame) list"
  harvest_vs_grid :: "(string \<times> real) list option"

text \<open>
  Lines 154--160. The \<^verbatim>\<open>except ZeroDivisionError\<close> branch reports and falls through:
  it binds neither \<^verbatim>\<open>m\<close> nor \<^verbatim>\<open>b\<close>, and it does not call \<^verbatim>\<open>st.stop()\<close>. No other
  exception can leave the \<^verbatim>\<open>try\<close> body.
\<close>

definition calibration_block :: "arith \<Rightarrow> widgets \<Rightarrow> ui list \<times> params option" where
  "calibration_block ar w =
     (case compute_params ar (min_meter w) (max_meter w) (min_actual w) (max_actual w) of
        Inr p \<Rightarrow> ([St_success p], Some p)
      | Inl e \<Rightarrow>
          ([St_error ''Invalid input: Max and Min Meter Readings cannot be the same.''], None))"

text \<open>Lines 250--256.\<close>

fun visible_series :: "widgets \<Rightarrow> channel \<Rightarrow> bool" where
  "visible_series w PV = show_pv w"
| "visible_series w Meter = show_meter w"
| "visible_series w Load = show_load w"

text \<open>
  Lines 135--427, on the cleaned frame. Reading the unbound \<^verbatim>\<open>m\<close> on line 165 raises
  \<^verbatim>\<open>NameError\<close>; \<^verbatim>\<open>st.slider\<close> raises when its two bounds coincide; an exception that
  nothing catches ends the run, and what was shown before it stays shown.
\<close>

definition script :: "arith \<Rightarrow> widgets \<Rightarrow> timestamp frame \<Rightarrow> ui list \<times> (py_exception + report)" where
  "script ar w df =
     (let (said, bound) = calibration_block ar w;
          shown =
            [St_header ''Step 1: Input Min and Max from SEMS and Meter reading [02] OFF Peak PMax and [04] Peak Pmax'']
            @ said @ [St_header ''Step 2: Input Energy value from SEMS'']
      in case bound of
           None \<Rightarrow> (shown, Inl NameError)
         | Some p \<Rightarrow>
             (let adjusted = evaluate ar p (reading_input w);
                  shown = shown @ [St_reading adjusted];
                  calibrated = apply_calibration ar p df
              in case representative_date calibrated of
                   Inl e \<Rightarrow> (shown, Inl e)
                 | Inr date \<Rightarrow>
                    (case add_markers (visible_series w) calibrated [PV, Meter, Load] of
                       Inl e \<Rightarrow> (shown, Inl e)
                     | Inr marked \<Rightarrow>
                        (case series_max (map Time calibrated) of
                           None \<Rightarrow> (shown, Inl ValueError)
                         | Some latest \<Rightarrow>
                            (let time_min = to_pydatetime date;
                                 time_max = to_pydatetime latest
                             in if time_max \<le> time_min
                                then (shown, Inl StreamlitInvalidMinMaxError)
                                else
                                 (let (interval_start, interval_end) =
                                        (case total_time_range w of
                                           None \<Rightarrow> (time_min, time_max)
                                         | Some chosen \<Rightarrow> chosen);
                                      totals =
                                        harvest_grid_split ar calibrated interval_start interval_end;
                                      shown =
                                        (if totals = None
                                         then shown @ [St_warning ''No data in the selected time range for total calculation.'']
                                         else shown)
                                  in (shown,
                                      Inr \<lparr>adjusted_value = adjusted,
                                           df_plot = calibrated,
                                           load_summary = summarize ar calibrated Load,
                                           pv_summary = summarize ar calibrated PV,
                                           meter_summary = summarize ar calibrated Meter,
                                           data_date = date,
                                           markers = marked,
                                           highlights =
                                             highlight (highlight_pv w) (show_pv w) calibrated PV
                                               (pv_lower w) (pv_upper w)
                                             @ highlight (highlight_meter w) (show_meter w) calibrated
                                                 Meter (meter_lower w) (meter_upper w)
                                             @ highlight (highlight_load w) (show_load w) calibrated
                                                 Load (load_lower w) (load_upper w),
                                           harvest_vs_grid = map_option pie_data_total totals\<rparr>)))))))"

text \<open>
  Lines 113--130 and then the rest: the \<open>Time\<close> column is parsed, the run is stopped with a
  message if the parser raises (\<^verbatim>\<open>st.stop()\<close> raises \<^verbatim>\<open>StopException\<close>), and the rows
  without a timestamp are dropped.
\<close>

definition run ::
  "arith \<Rightarrow> ('c, timestamp) parser \<Rightarrow> 'c frame \<Rightarrow> widgets \<Rightarrow> ui list \<times> (py_exception + report)" where
  "run ar parse df_raw w =
     (case to_datetime parse df_raw of
        Inl message \<Rightarrow> ([St_error (''Error parsing 'Time' column: '' @ message)], Inl StopException)
      | Inr parsed \<Rightarrow> script ar w (dropna parsed))"

subsection \<open>A sample upload\<close>

text \<open>
  Four rows sampled five minutes apart, one of them with the text \<^verbatim>\<open>N/A\<close> in its
  \<^verbatim>\<open>Time\<close> cell, a parser that reads each cell by itself, the three rows that are left
  after cleaning, and every widget on its default.
\<close>

definition sample_stamp :: "string \<Rightarrow> timestamp option" where
  "sample_stamp c =
     (if c = ''2025-04-09 02:20:00'' then Some 1744165200000000000
      else if c = ''2025-04-09 02:25:00'' then Some 1744165500000000000
      else if c = ''2025-04-09 02:30:00'' then Some 1744165800000000000
      else None)"

definition sample_parse :: "(string, timestamp) parser" where
  "sample_parse column = Inr (\<lambda>k. if k < length column then sample_stamp (column ! k) else None)"

definition sample_table :: "string frame" where
  "sample_table =
     [\<lparr>Time = ''2025-04-09 02:20:00'', PV_W = Some 1, Meter_W = Some (- 500), Load_W = Some 650\<rparr>,
      \<lparr>Time = ''N/A'', PV_W = Some 4, Meter_W = Some 900, Load_W = Some 904\<rparr>,
      \<lparr>Time = ''2025-04-09 02:25:00'', PV_W = Some 8, Meter_W = Some 300, Load_W = Some 410\<rparr>,
      \<lparr>Time = ''2025-04-09 02:30:00'', PV_W = Some 0, Meter_W = Some 500, Load_W = Some 700\<rparr>]"

definition sample_frame :: "timestamp frame" where
  "sample_frame =
     [\<lparr>Time = 1744165200000000000, PV_W = Some 1, Meter_W = Some (- 500), Load_W = Some 650\<rparr>,
      \<lparr>Time = 1744165500000000000, PV_W = Some 8, Meter_W = Some 300, Load_W = Some 410\<rparr>,
      \<lparr>Time = 1744165800000000000, PV_W = Some 0, Meter_W = Some 500, Load_W = Some 700\<rparr>]"

definition sample_widgets :: widgets where
  "sample_widgets =
     \<lparr>min_meter = 0, max_meter = 200, min_actual = 0, max_actual = 200, reading_input = 100,
      show_pv = True, show_meter = True, show_load = True,
      highlight_pv = False, pv_lower = 0, pv_upper = 8,
      highlight_meter = False, meter_lower = - 500, meter_upper = 500,
      highlight_load = False, load_lower = 410, load_upper = 700,
      total_time_range = None\<rparr>"


text \<open>
  Eight rows one minute apart, with meter readings of 100 W and 200 W of either sign.
\<close>

definition eight_rows :: "timestamp frame" where
  "eight_rows =
     [\<lparr>Time = 1744165200000000000, PV_W = Some 0, Meter_W = Some (- 100), Load_W = Some 100\<rparr>,
      \<lparr>Time = 1744165260000000000, PV_W = Some 0, Meter_W = Some 100, Load_W = Some 100\<rparr>,
      \<lparr>Time = 1744165320000000000, PV_W = Some 0, Meter_W = Some (- 100), Load_W = Some 100\<rparr>,
      \<lparr>Time = 1744165380000000000, PV_W = Some 0, Meter_W = Some 100, Load_W = Some 100\<rparr>,
      \<lparr>Time = 1744165440000000000, PV_W = Some 0, Meter_W = Some 200, Load_W = Some 200\<rparr>,
      \<lparr>Time = 1744165500000000000, PV_W = Some 0, Meter_W = Some (- 200), Load_W = Some 200\<rparr>,
      \<lparr>Time = 1744165560000000000, PV_W = Some 0, Meter_W = Some 200, Load_W = Some 200\<rparr>,
      \<lparr>Time = 1744165620000000000, PV_W = Some 0, Meter_W = Some (- 200), Load_W = Some 200\<rparr>]"

section \<open>Properties\<close>

subsection \<open>Rounding\<close>

lemma rnd_zero: "rnd ar 0 = 0"
  by (cases ar) (simp_all add: fl64_def)

text \<open>
  Rounding never turns a number other than zero into zero (the exponent is unbounded), so
  the difference of two distinct floats is not zero.
\<close>

lemma rne_bounds: "\<lfloor>y\<rfloor> \<le> rne y \<and> rne y \<le> \<lfloor>y\<rfloor> + 1"
  by (simp add: rne_def Let_def)

lemma rne_of_int: "rne (of_int z) = z"
  by (simp add: rne_def Let_def)

lemma rne_nonzero:
  assumes "1 \<le> \<bar>y\<bar>"
  shows "rne y \<noteq> 0"
proof (cases "0 \<le> y")
  case True
  with assms have "1 \<le> \<lfloor>y\<rfloor>" by (simp add: le_floor_iff)
  with rne_bounds [of y] show ?thesis by linarith
next
  case False
  with assms have y: "y \<le> - 1" by simp
  then have f: "\<lfloor>y\<rfloor> \<le> - 1" by (simp add: floor_le_iff)
  show ?thesis
  proof (cases "\<lfloor>y\<rfloor> = - 1")
    case True
    then have "- 1 \<le> y" using of_int_floor_le [of y] by simp
    with y have "y = of_int (- 1)" by simp
    then have "rne y = - 1" by (simp only: rne_of_int)
    then show ?thesis by simp
  next
    case False
    with f have "\<lfloor>y\<rfloor> \<le> - 2" by linarith
    with rne_bounds [of y] show ?thesis by linarith
  qed
qed

lemma fl64_nonzero:
  assumes "x \<noteq> 0"
  shows "fl64 x \<noteq> 0"
proof (cases "1 \<le> \<bar>x\<bar>")
  case True
  define n where "n = \<lfloor>\<bar>x\<bar>\<rfloor>"
  define k where "k = nat (bitlen n)"
  have n: "0 < n" using True by (simp add: n_def)
  have nx: "of_int n \<le> \<bar>x\<bar>" by (simp add: n_def)
  from bitlen_bounds [OF n] have lo: "2 ^ nat (bitlen n - 1) \<le> n" by simp
  have kpos: "0 < bitlen n"
    using n bitlen_nonneg [of n] bitlen_eq_zero_iff [of n] by linarith
  then have k1: "nat (bitlen n - 1) = k - 1" by (simp add: k_def nat_diff_distrib')
  show ?thesis
  proof (cases "53 \<le> k")
    case k: True
    have "(2::real) ^ (k - 1) \<le> of_int n"
      using lo k1 by (metis of_int_le_iff of_int_numeral of_int_power)
    then have "(2::real) ^ (k - 1) \<le> \<bar>x\<bar>" using nx by (rule order_trans)
    moreover have "(2::real) ^ (k - 53) \<le> 2 ^ (k - 1)"
      by (rule power_increasing) (use k in simp_all)
    ultimately have "(2::real) ^ (k - 53) \<le> \<bar>x\<bar>"
      by (rule order_trans [rotated])
    then have "1 \<le> \<bar>x / 2 ^ (k - 53)\<bar>"
      by (simp add: abs_divide le_divide_eq)
    then have "rne (x / 2 ^ (k - 53)) \<noteq> 0" by (rule rne_nonzero)
    with True k show ?thesis
      by (simp add: fl64_def n_def [symmetric] k_def [symmetric] assms)
  next
    case k: False
    have "\<bar>x\<bar> * 1 \<le> \<bar>x\<bar> * 2 ^ (53 - k)"
      by (rule mult_left_mono) simp_all
    with True have "1 \<le> \<bar>x * 2 ^ (53 - k)\<bar>"
      by (simp add: abs_mult)
    then have "rne (x * 2 ^ (53 - k)) \<noteq> 0" by (rule rne_nonzero)
    with True k show ?thesis
      by (simp add: fl64_def n_def [symmetric] k_def [symmetric] assms)
  qed
next
  case False
  define n where "n = \<lfloor>1 / \<bar>x\<bar>\<rfloor>"
  define j where "j = nat (bitlen n)"
  have small: "\<bar>x\<bar> < 1" "0 < \<bar>x\<bar>" using False assms by simp_all
  then have "1 \<le> 1 / \<bar>x\<bar>" by (simp add: le_divide_eq)
  then have n: "0 < n" by (simp add: n_def)
  from bitlen_bounds [OF n] have "n < 2 ^ nat (bitlen n)" by simp
  then have "n + 1 \<le> 2 ^ j" by (simp add: j_def)
  then have "of_int (n + 1) \<le> (2::real) ^ j"
    by (metis of_int_le_iff of_int_numeral of_int_power)
  moreover have "1 / \<bar>x\<bar> < of_int (n + 1)"
    unfolding n_def by (simp add: floor_correct)
  ultimately have "1 / \<bar>x\<bar> < 2 ^ j" by simp
  then have "1 < \<bar>x\<bar> * 2 ^ j" using small by (simp add: divide_less_eq mult.commute)
  moreover have "\<bar>x\<bar> * 2 ^ j * 1 \<le> \<bar>x\<bar> * 2 ^ j * 2 ^ 52"
    by (rule mult_left_mono) simp_all
  ultimately have "1 \<le> \<bar>x * 2 ^ (j + 52)\<bar>"
    by (simp add: abs_mult power_add)
  then have "rne (x * 2 ^ (j + 52)) \<noteq> 0" by (rule rne_nonzero)
  with False show ?thesis
    by (simp add: fl64_def n_def [symmetric] j_def [symmetric] assms)
qed

lemma rnd_eq_0_iff: "rnd ar x = 0 \<longleftrightarrow> x = 0"
proof (cases ar)
  case Exact
  then show ?thesis by simp
next
  case Binary64
  have "fl64 0 = 0" by (simp add: fl64_def)
  with fl64_nonzero [of x] Binary64 show ?thesis by auto
qed

subsection \<open>Calibration at the reference points\<close>

text \<open>
  Claim C1, as amended. Whenever the two reference inputs differ, the parameters are
  computed: the scale is the quotient of the two differences and the offset is
  \<open>output_min - scale \<times> input_min\<close>, each operation in the arithmetic of the run. In
  exact arithmetic they are the slope and intercept of the line through the two reference
  points, and the calibrated value at each reference input is the reference output.
\<close>

theorem compute_params_exact_at_reference_points:
  assumes "input_min \<noteq> input_max"
  shows "(\<exists>p. compute_params ar input_min input_max output_min output_max = Inr p
            \<and> scale p = rnd ar (rnd ar (output_max - output_min) / rnd ar (input_max - input_min))
            \<and> offset p = rnd ar (output_min - rnd ar (scale p * input_min)))
       \<and> (\<exists>p. compute_params Exact input_min input_max output_min output_max = Inr p
            \<and> scale p = (output_max - output_min) / (input_max - input_min)
            \<and> offset p = output_min - scale p * input_min
            \<and> evaluate Exact p input_min = output_min
            \<and> evaluate Exact p input_max = output_max)"
proof
  from assms have "rnd ar (input_max - input_min) \<noteq> 0"
    by (simp add: rnd_eq_0_iff)
  then show "\<exists>p. compute_params ar input_min input_max output_min output_max = Inr p
            \<and> scale p = rnd ar (rnd ar (output_max - output_min) / rnd ar (input_max - input_min))
            \<and> offset p = rnd ar (output_min - rnd ar (scale p * input_min))"
    by (simp add: compute_params_def py_truediv_def fsub_def fmul_def)
next
  define m where "m = (output_max - output_min) / (input_max - input_min)"
  define p where "p = \<lparr>scale = m, offset = output_min - m * input_min\<rparr>"
  from assms have d: "input_max - input_min \<noteq> 0" by simp
  then have run: "compute_params Exact input_min input_max output_min output_max = Inr p"
    by (simp add: compute_params_def py_truediv_def fsub_def fmul_def p_def m_def)
  have slope: "m * (input_max - input_min) = output_max - output_min"
    using d by (simp add: m_def)
  have at_min: "evaluate Exact p input_min = output_min"
    by (simp add: evaluate_def fadd_def fmul_def p_def)
  have "m * input_max + (output_min - m * input_min)
          = m * (input_max - input_min) + output_min"
    by (simp add: algebra_simps)
  also have "\<dots> = output_max"
    by (simp add: slope)
  finally have at_max: "evaluate Exact p input_max = output_max"
    by (simp add: evaluate_def fadd_def fmul_def p_def)
  have "scale p = (output_max - output_min) / (input_max - input_min)"
    and "offset p = output_min - scale p * input_min"
    by (simp_all add: p_def m_def)
  with run at_min at_max
  show "\<exists>p. compute_params Exact input_min input_max output_min output_max = Inr p
            \<and> scale p = (output_max - output_min) / (input_max - input_min)
            \<and> offset p = output_min - scale p * input_min
            \<and> evaluate Exact p input_min = output_min
            \<and> evaluate Exact p input_max = output_max"
    by blast
qed

theorem compute_params_exact_at_reference_points_witness:
  "(0::real) \<noteq> 200
   \<and> (\<exists>p. compute_params Binary64 0 200 0 180 = Inr p
          \<and> scale p = rnd Binary64 (rnd Binary64 (180 - 0) / rnd Binary64 (200 - 0))
          \<and> offset p = rnd Binary64 (0 - rnd Binary64 (scale p * 0)))
   \<and> (\<exists>p. compute_params Exact 0 200 0 180 = Inr p
          \<and> scale p = (180 - 0) / (200 - 0)
          \<and> offset p = 0 - scale p * 0
          \<and> evaluate Exact p 0 = 0
          \<and> evaluate Exact p 200 = 180)"
proof -
  have differ: "(0::real) \<noteq> 200" by simp
  from compute_params_exact_at_reference_points
         [where input_min = 0 and input_max = 200 and ar = Binary64
            and output_min = 0 and output_max = 180, OF differ] differ
  show ?thesis by blast
qed

text \<open>
  The claim as stated, on the floats the script computes with: for the reference points
  \<open>(1, 0)\<close> and \<open>(6, 1)\<close> the slope is the double nearest to \<open>1/5\<close>, the intercept its
  negation, and the calibrated value at the reference input \<open>6\<close> is \<open>1 + 1 / 2 ^ 52\<close>
  (Python prints \<^verbatim>\<open>1.0000000000000002\<close>), not the reference output \<open>1\<close>.
\<close>

theorem evaluate_binary64_counterexample:
  "compute_params Binary64 1 6 0 1
     = Inr \<lparr>scale = 3602879701896397 / 2 ^ 54, offset = - (3602879701896397 / 2 ^ 54)\<rparr>
   \<and> evaluate Binary64
        \<lparr>scale = 3602879701896397 / 2 ^ 54, offset = - (3602879701896397 / 2 ^ 54)\<rparr> 6
     = 1 + 1 / 2 ^ 52
   \<and> (1::real) + 1 / 2 ^ 52 \<noteq> 1"
  by code_simp


subsection \<open>Reductions in exact arithmetic\<close>

text \<open>
  Without rounding the order of the additions does not matter: the sum of a column is the
  sum of the cells that hold a value.
\<close>

lemma foldl_fadd_exact: "foldl (fadd Exact) a xs = a + sum_list xs"
  by (induction xs arbitrary: a) (simp_all add: fadd_def)

lemma sum_list_map2_fadd_exact:
  "length r = length ys \<Longrightarrow> sum_list (map2 (fadd Exact) r ys) = sum_list r + sum_list ys"
  by (induction r ys rule: list_induct2) (simp_all add: fadd_def)

lemma sum_list_take_drop: "sum_list (take n xs) + sum_list (drop n xs) = (sum_list xs :: real)"
  using sum_list_append [of "take n xs" "drop n xs"] by simp

lemma accumulate8_exact:
  assumes "length r = 8" "accumulate8 Exact r xs = (r', rest)"
  shows "length r' = 8 \<and> sum_list r' + sum_list rest = sum_list r + sum_list xs"
  using assms
proof (induction Exact r xs arbitrary: r' rest rule: accumulate8.induct)
  case (1 r xs)
  show ?case
  proof (cases "length xs < 8")
    case True
    with "1.prems" show ?thesis by (simp add: accumulate8.simps [of Exact r xs])
  next
    case False
    then have step: "accumulate8 Exact (map2 (fadd Exact) r (take 8 xs)) (drop 8 xs) = (r', rest)"
      using "1.prems"(2) by (simp add: accumulate8.simps [of Exact r xs])
    have len: "length (map2 (fadd Exact) r (take 8 xs)) = 8"
      using False "1.prems"(1) by simp
    have same: "length r = length (take 8 xs)"
      using False "1.prems"(1) by simp
    from "1.hyps" [OF False len step]
    have "length r' = 8"
      and "sum_list r' + sum_list rest
            = sum_list (map2 (fadd Exact) r (take 8 xs)) + sum_list (drop 8 xs)"
      by simp_all
    moreover have "sum_list (map2 (fadd Exact) r (take 8 xs)) = sum_list r + sum_list (take 8 xs)"
      by (rule sum_list_map2_fadd_exact [OF same])
    ultimately show ?thesis
      using sum_list_take_drop [of 8 xs] by simp
  qed
qed

lemma combine8_exact: "length r = 8 \<Longrightarrow> combine8 Exact r = sum_list r"
  by (auto simp: combine8_def fadd_def numeral_eq_Suc length_Suc_conv)

lemma pairwise_sum_exact: "pairwise_sum Exact xs = sum_list xs"
proof (induction Exact xs rule: pairwise_sum.induct)
  case (1 xs)
  show ?case
  proof (cases "length xs < 8")
    case True
    then show ?thesis
      by (simp add: pairwise_sum.simps [of Exact xs] foldl_fadd_exact)
  next
    case small: False
    show ?thesis
    proof (cases "length xs \<le> 128")
      case True
      obtain r rest where acc: "accumulate8 Exact (take 8 xs) (drop 8 xs) = (r, rest)"
        by (cases "accumulate8 Exact (take 8 xs) (drop 8 xs)")
      have "length (take 8 xs) = 8" using small by simp
      from accumulate8_exact [OF this acc]
      have "length r = 8" and "sum_list r + sum_list rest = sum_list xs"
        using sum_list_take_drop [of 8 xs] by simp_all
      with small True acc show ?thesis
        by (simp add: pairwise_sum.simps [of Exact xs] foldl_fadd_exact combine8_exact)
    next
      case False
      with small "1.hyps" have
        "pairwise_sum Exact (take (half8 (length xs)) xs) = sum_list (take (half8 (length xs)) xs)"
        "pairwise_sum Exact (drop (half8 (length xs)) xs) = sum_list (drop (half8 (length xs)) xs)"
        by simp_all
      with small False show ?thesis
        using sum_list_take_drop [of "half8 (length xs)" xs]
        by (simp add: pairwise_sum.simps [of Exact xs] fadd_def)
    qed
  qed
qed

lemma sum_list_fill0: "sum_list (fill0 cells) = sum_list (present cells)"
  by (induction cells) (auto simp: fill0_def present_def map_filter_simps split: option.splits)

lemma series_sum_exact: "series_sum Exact cells = sum_list (present cells)"
  by (simp add: series_sum_def fadd_def pairwise_sum_exact sum_list_fill0)

lemma present_map_option: "present (map (\<lambda>r. map_option f (g r)) df) = map f (present (map g df))"
  by (induction df) (auto simp: present_def map_filter_simps split: option.splits)

lemma series_min_eq: "series_min xs = (if xs = [] then None else Some (Min (set xs)))"
proof (cases xs)
  case Nil
  then show ?thesis by simp
next
  case (Cons x ys)
  then show ?thesis using Min.set_eq_fold [of x ys] by simp
qed

lemma series_max_eq: "series_max xs = (if xs = [] then None else Some (Max (set xs)))"
proof (cases xs)
  case Nil
  then show ?thesis by simp
next
  case (Cons x ys)
  then show ?thesis using Max.set_eq_fold [of x ys] by simp
qed

lemma sum_list_kw: "(\<Sum>v\<leftarrow>xs. f v / 1000) = (\<Sum>v\<leftarrow>xs. f v) / (1000::real)"
  by (induction xs) (simp_all add: add_divide_distrib)

lemma series_min_le:
  assumes "series_min xs = Some lo" "x \<in> set xs"
  shows "lo \<le> x"
  using assms by (simp add: series_min_eq split: if_splits) (metis List.finite_set Min_le)

lemma series_max_ge:
  assumes "series_max xs = Some hi" "x \<in> set xs"
  shows "x \<le> hi"
  using assms by (simp add: series_max_eq split: if_splits) (metis List.finite_set Max_ge)


subsection \<open>One linear map for the three channels\<close>

lemma evaluate_unfold: "evaluate ar p = (\<lambda>v. rnd ar (rnd ar (scale p * v) + offset p))"
  by (rule ext) (simp add: evaluate_def fadd_def fmul_def)

text \<open>
  Claim C2. The calibration replaces the cell of each of the three channels, in every row,
  by \<open>scale \<times> value + offset\<close> computed in the arithmetic of the run, with the one pair
  of parameters for all three: whichever the channel, the calibrated column is
  \<open>evaluate\<close> of the same parameters along the old column. A missing cell stays missing.
  The \<open>Time\<close> column, the number and the order of the rows are kept.
\<close>

theorem apply_calibration_shared_map:
  "map (channel_value col) (apply_calibration ar p df)
     = map (\<lambda>r. map_option (\<lambda>v. rnd ar (rnd ar (scale p * v) + offset p)) (channel_value col r)) df
   \<and> map (channel_value col) (apply_calibration ar p df)
     = map (\<lambda>r. map_option (evaluate ar p) (channel_value col r)) df
   \<and> map (channel_value col) (apply_calibration Exact p df)
     = map (\<lambda>r. map_option (\<lambda>v. scale p * v + offset p) (channel_value col r)) df
   \<and> map Time (apply_calibration ar p df) = map Time df"
  by (cases col) (simp_all add: apply_calibration_def evaluate_unfold fadd_def fmul_def)

subsection \<open>The reference readings coincide\<close>

lemma degenerate_calibration_falls_through:
  assumes "max_meter w = min_meter w"
  shows "compute_params ar (min_meter w) (max_meter w) (min_actual w) (max_actual w)
           = Inl ZeroDivisionError"
    and "script ar w df =
           ([St_header ''Step 1: Input Min and Max from SEMS and Meter reading [02] OFF Peak PMax and [04] Peak Pmax'',
             St_error ''Invalid input: Max and Min Meter Readings cannot be the same.'',
             St_header ''Step 2: Input Energy value from SEMS''],
            Inl NameError)"
  using assms
  by (simp_all add: script_def calibration_block_def compute_params_def py_truediv_def fsub_def rnd_zero)

lemma sample_table_cleaned:
  "map_sum (\<lambda>message. message) dropna (to_datetime sample_parse sample_table) = Inr sample_frame"
  by code_simp

text \<open>
  Claim C3, on the code. With both SEMS readings at \<open>200\<close> the division raises
  \<^verbatim>\<open>ZeroDivisionError\<close> and the \<^verbatim>\<open>except\<close> branch shows its message, but the run is not
  stopped there: the header of step 2 is shown after the error, and line 165 then raises
  \<^verbatim>\<open>NameError\<close> on the unbound \<^verbatim>\<open>m\<close>. Every other error the script reports is followed
  by \<^verbatim>\<open>st.stop()\<close> (lines 75, 78, 111, 117 and 125).
\<close>

theorem degenerate_calibration_run:
  "compute_params Binary64 200 200 0 200 = Inl ZeroDivisionError
   \<and> run Binary64 sample_parse sample_table (sample_widgets\<lparr>min_meter := 200\<rparr>) =
       ([St_header ''Step 1: Input Min and Max from SEMS and Meter reading [02] OFF Peak PMax and [04] Peak Pmax'',
         St_error ''Invalid input: Max and Min Meter Readings cannot be the same.'',
         St_header ''Step 2: Input Energy value from SEMS''],
        Inl NameError)"
proof -
  have same: "max_meter (sample_widgets\<lparr>min_meter := 200\<rparr>) = min_meter (sample_widgets\<lparr>min_meter := 200\<rparr>)"
    by (simp add: sample_widgets_def)
  have "compute_params Binary64 200 200 0 200 = Inl ZeroDivisionError"
    by (simp add: compute_params_def py_truediv_def fsub_def rnd_zero)
  moreover have "run Binary64 sample_parse sample_table (sample_widgets\<lparr>min_meter := 200\<rparr>) =
       ([St_header ''Step 1: Input Min and Max from SEMS and Meter reading [02] OFF Peak PMax and [04] Peak Pmax'',
         St_error ''Invalid input: Max and Min Meter Readings cannot be the same.'',
         St_header ''Step 2: Input Energy value from SEMS''],
        Inl NameError)"
    using degenerate_calibration_falls_through(2) [OF same]
    by (simp add: run_def to_datetime_def sample_parse_def)
  ultimately show ?thesis by simp
qed

subsection \<open>Summaries\<close>

text \<open>
  Claim C4, as amended. The summary of a channel is the total, minimum, maximum and mean
  of its kilowatt column, taken over the rows whose cell holds a value; the mean divides
  by the number of these rows. For the meter that column holds \<open>\<bar>Meter_W\<bar> / 1000\<close> of each
  row, so the absolute value is taken row by row before all four statistics; for PV and
  load it holds the signed \<open>PV_W / 1000\<close> and \<open>Load_W / 1000\<close>. In exact arithmetic the
  totals are the sums of these kilowatt values.
\<close>

theorem summarize_per_channel:
  "summarize ar df Meter
     = \<lparr>total = series_sum ar (map (\<lambda>r. map_option (\<lambda>v. rnd ar (\<bar>v\<bar> / 1000)) (Meter_W r)) df),
        minimum = series_min (present (map (\<lambda>r. map_option (\<lambda>v. rnd ar (\<bar>v\<bar> / 1000)) (Meter_W r)) df)),
        maximum = series_max (present (map (\<lambda>r. map_option (\<lambda>v. rnd ar (\<bar>v\<bar> / 1000)) (Meter_W r)) df)),
        average = series_mean ar (map (\<lambda>r. map_option (\<lambda>v. rnd ar (\<bar>v\<bar> / 1000)) (Meter_W r)) df)\<rparr>
   \<and> summarize ar df PV
     = \<lparr>total = series_sum ar (map (\<lambda>r. map_option (\<lambda>v. rnd ar (v / 1000)) (PV_W r)) df),
        minimum = series_min (present (map (\<lambda>r. map_option (\<lambda>v. rnd ar (v / 1000)) (PV_W r)) df)),
        maximum = series_max (present (map (\<lambda>r. map_option (\<lambda>v. rnd ar (v / 1000)) (PV_W r)) df)),
        average = series_mean ar (map (\<lambda>r. map_option (\<lambda>v. rnd ar (v / 1000)) (PV_W r)) df)\<rparr>
   \<and> summarize ar df Load
     = \<lparr>total = series_sum ar (map (\<lambda>r. map_option (\<lambda>v. rnd ar (v / 1000)) (Load_W r)) df),
        minimum = series_min (present (map (\<lambda>r. map_option (\<lambda>v. rnd ar (v / 1000)) (Load_W r)) df)),
        maximum = series_max (present (map (\<lambda>r. map_option (\<lambda>v. rnd ar (v / 1000)) (Load_W r)) df)),
        average = series_mean ar (map (\<lambda>r. map_option (\<lambda>v. rnd ar (v / 1000)) (Load_W r)) df)\<rparr>
   \<and> total (summarize Exact df Meter) = (\<Sum>v\<leftarrow>present (map Meter_W df). \<bar>v\<bar> / 1000)
   \<and> total (summarize Exact df PV) = (\<Sum>v\<leftarrow>present (map PV_W df). v / 1000)
   \<and> total (summarize Exact df Load) = (\<Sum>v\<leftarrow>present (map Load_W df). v / 1000)
   \<and> minimum (summarize Exact df Meter)
       = (if present (map Meter_W df) = [] then None
          else Some (Min ((\<lambda>v. \<bar>v\<bar> / 1000) ` set (present (map Meter_W df)))))
   \<and> maximum (summarize Exact df Meter)
       = (if present (map Meter_W df) = [] then None
          else Some (Max ((\<lambda>v. \<bar>v\<bar> / 1000) ` set (present (map Meter_W df)))))
   \<and> average (summarize Exact df Meter)
       = (if present (map Meter_W df) = [] then None
          else Some ((\<Sum>v\<leftarrow>present (map Meter_W df). \<bar>v\<bar> / 1000)
                     / real (length (present (map Meter_W df)))))"
  by (simp add: summarize_def PV_KW_def Load_KW_def Meter_KW_abs_def series_sum_exact
      series_min_eq series_max_eq series_mean_def present_map_option Let_def)

text \<open>
  The claim as stated, on the floats the script computes with. For eight rows with meter
  readings of 100, 100, 100, 100, 200, 200, 200 and 200 W in absolute value, the total of
  the summary is the double Python prints as \<^verbatim>\<open>1.2000000000000002\<close>. Adding the eight
  kilowatt cells one after the other, as \<^verbatim>\<open>sum\<close> of Python does, gives \<^verbatim>\<open>1.2\<close>; their
  sum as real numbers and the real number \<open>12/10\<close> differ from the total as well.
\<close>

theorem summarize_binary64_counterexample:
  "total (summarize Binary64 eight_rows Meter) = 1351079888211149 / 2 ^ 50
   \<and> present (Meter_KW_abs Binary64 eight_rows)
       = [3602879701896397 / 2 ^ 55, 3602879701896397 / 2 ^ 55,
          3602879701896397 / 2 ^ 55, 3602879701896397 / 2 ^ 55,
          3602879701896397 / 2 ^ 54, 3602879701896397 / 2 ^ 54,
          3602879701896397 / 2 ^ 54, 3602879701896397 / 2 ^ 54]
   \<and> foldl (fadd Binary64) 0 (present (Meter_KW_abs Binary64 eight_rows)) = 5404319552844595 / 2 ^ 52
   \<and> sum_list (present (Meter_KW_abs Binary64 eight_rows)) = 10808639105689191 / 2 ^ 53
   \<and> (1351079888211149 / 2 ^ 50 :: real) \<noteq> 5404319552844595 / 2 ^ 52
   \<and> (1351079888211149 / 2 ^ 50 :: real) \<noteq> 10808639105689191 / 2 ^ 53
   \<and> (1351079888211149 / 2 ^ 50 :: real) \<noteq> 12 / 10"
  by code_simp

subsection \<open>No row with a timestamp\<close>

lemma no_rows_never_reports:
  "snd (script ar w []) = Inl NameError \<or> snd (script ar w []) = Inl ValueError"
  by (simp add: script_def apply_calibration_def representative_date_def Let_def
      split: prod.splits option.splits)

text \<open>
  Claim C5, on the code. The date is the minimum of the \<open>Time\<close> column, but nothing
  between line 130 and line 217 looks at the number of rows. For an upload whose only row
  has the text \<^verbatim>\<open>N/A\<close> as its time, no row survives the cleaning, the calibration and the
  summaries are computed on the empty frame, and the date is taken of it: the run ends in
  the \<^verbatim>\<open>ValueError\<close> of \<^verbatim>\<open>NaT.strftime\<close>. The later consumers of the frame test for
  emptiness (lines 294, 348, 357, 366 and 395).
\<close>

theorem no_valid_rows_run:
  "to_datetime sample_parse [\<lparr>Time = ''N/A'', PV_W = Some 4, Meter_W = Some 900, Load_W = Some 904\<rparr>]
     = Inr [\<lparr>Time = None, PV_W = Some 4, Meter_W = Some 900, Load_W = Some 904\<rparr>]
   \<and> dropna [\<lparr>Time = None :: timestamp option, PV_W = Some 4, Meter_W = Some 900, Load_W = Some 904\<rparr>] = []
   \<and> representative_date ([] :: timestamp frame) = Inl ValueError
   \<and> run Binary64 sample_parse
        [\<lparr>Time = ''N/A'', PV_W = Some 4, Meter_W = Some 900, Load_W = Some 904\<rparr>] sample_widgets =
       ([St_header ''Step 1: Input Min and Max from SEMS and Meter reading [02] OFF Peak PMax and [04] Peak Pmax'',
         St_success \<lparr>scale = 1, offset = 0\<rparr>,
         St_header ''Step 2: Input Energy value from SEMS'',
         St_reading 100],
        Inl ValueError)"
  by code_simp

subsection \<open>The split over the whole time range\<close>

text \<open>
  Claim C6, as amended. When the interval runs from the minimum to the maximum timestamp
  of the frame, every row is selected, and in exact arithmetic the solar total is the
  total of the PV summary and the grid total is the total of the meter summary.
\<close>

theorem harvest_full_range_exact:
  assumes "series_min (map Time df) = Some time_min"
    and "series_max (map Time df) = Some time_max"
  shows "harvest_grid_split Exact df time_min time_max
           = Some \<lparr>solar_kw = total (summarize Exact df PV),
                   grid_kw = total (summarize Exact df Meter),
                   load_kw = total (summarize Exact df PV) + total (summarize Exact df Meter)\<rparr>"
proof -
  from assms(1) have ne: "df \<noteq> []" by (cases df) simp_all
  have "time_min \<le> Time r \<and> Time r \<le> time_max" if "r \<in> set df" for r
    using that series_min_le [OF assms(1)] series_max_ge [OF assms(2)] by simp
  then have all: "filter (\<lambda>r. time_min \<le> Time r \<and> Time r \<le> time_max) df = df"
    by (simp add: filter_id_conv)
  have pv: "total (summarize Exact df PV) = sum_list (present (map PV_W df)) / 1000"
    by (simp add: summarize_def PV_KW_def series_sum_exact present_map_option sum_list_kw Let_def)
  have meter: "total (summarize Exact df Meter) = (\<Sum>v\<leftarrow>present (map Meter_W df). \<bar>v\<bar>) / 1000"
    by (simp add: summarize_def Meter_KW_abs_def series_sum_exact present_map_option
        sum_list_kw Let_def)
  show ?thesis
    unfolding harvest_grid_split_def all pv meter
    using ne by (simp add: series_sum_exact present_map_option fadd_def Let_def)
qed

theorem harvest_full_range_exact_witness:
  "series_min (map Time sample_frame) = Some 1744165200000000000
   \<and> series_max (map Time sample_frame) = Some 1744165800000000000
   \<and> harvest_grid_split Exact sample_frame 1744165200000000000 1744165800000000000
       = Some \<lparr>solar_kw = total (summarize Exact sample_frame PV),
               grid_kw = total (summarize Exact sample_frame Meter),
               load_kw = total (summarize Exact sample_frame PV)
                         + total (summarize Exact sample_frame Meter)\<rparr>
   \<and> total (summarize Exact sample_frame PV) = 9 / 1000
   \<and> total (summarize Exact sample_frame Meter) = 13 / 10"
proof -
  have lo: "series_min (map Time sample_frame) = Some 1744165200000000000"
    by code_simp
  have hi: "series_max (map Time sample_frame) = Some 1744165800000000000"
    by code_simp
  have pv: "total (summarize Exact sample_frame PV) = 9 / 1000"
    by code_simp
  have meter: "total (summarize Exact sample_frame Meter) = 13 / 10"
    by code_simp
  from harvest_full_range_exact [OF lo hi] lo hi pv meter show ?thesis by simp
qed

text \<open>
  The claim as stated, on the floats the script computes with. The summary divides each
  cell by 1000 and then adds; the split adds and then divides. For the PV cells
  \<open>1, 8, 0\<close> of the sample the summary total is the double Python prints as
  \<^verbatim>\<open>0.009000000000000001\<close> and the solar total is \<^verbatim>\<open>0.009\<close>.
\<close>

theorem harvest_full_range_binary64_counterexample:
  "series_min (map Time sample_frame) = Some 1744165200000000000
   \<and> series_max (map Time sample_frame) = Some 1744165800000000000
   \<and> map_option solar_kw
        (harvest_grid_split Binary64 sample_frame 1744165200000000000 1744165800000000000)
       = Some (5188146770730811 / 2 ^ 59)
   \<and> total (summarize Binary64 sample_frame PV) = 1297036692682703 / 2 ^ 57
   \<and> (5188146770730811 / 2 ^ 59 :: real) \<noteq> 1297036692682703 / 2 ^ 57"
  by code_simp

subsection \<open>Markers\<close>








subsection \<open>Rows without a timestamp\<close>

lemma dropna_positions:
  "dropna (map (\<lambda>k. \<lparr>Time = stamps k, PV_W = f k, Meter_W = g k, Load_W = h k\<rparr>) ks)
     = List.map_filter
         (\<lambda>k. case stamps k of
                 None \<Rightarrow> None
               | Some t \<Rightarrow> Some \<lparr>Time = t, PV_W = f k, Meter_W = g k, Load_W = h k\<rparr>) ks"
  by (induction ks) (auto simp: dropna_def map_filter_simps split: option.splits)

lemma script_report:
  assumes "script ar w df = (shown, Inr rep)"
  shows "\<exists>p. compute_params ar (min_meter w) (max_meter w) (min_actual w) (max_actual w) = Inr p
           \<and> df_plot rep = apply_calibration ar p df
           \<and> load_summary rep = summarize ar (df_plot rep) Load
           \<and> pv_summary rep = summarize ar (df_plot rep) PV
           \<and> meter_summary rep = summarize ar (df_plot rep) Meter
           \<and> series_min (map Time (df_plot rep)) = Some (data_date rep)
           \<and> add_markers (visible_series w) (df_plot rep) [PV, Meter, Load] = Inr (markers rep)
           \<and> highlights rep
               = highlight (highlight_pv w) (show_pv w) (df_plot rep) PV (pv_lower w) (pv_upper w)
                 @ highlight (highlight_meter w) (show_meter w) (df_plot rep) Meter
                     (meter_lower w) (meter_upper w)
                 @ highlight (highlight_load w) (show_load w) (df_plot rep) Load
                     (load_lower w) (load_upper w)
           \<and> (\<exists>interval_start interval_end.
                 harvest_vs_grid rep
                   = map_option pie_data_total
                       (harvest_grid_split ar (df_plot rep) interval_start interval_end))"
proof -
  obtain p where p: "compute_params ar (min_meter w) (max_meter w) (min_actual w) (max_actual w) = Inr p"
    using assms
    by (cases "compute_params ar (min_meter w) (max_meter w) (min_actual w) (max_actual w)")
       (simp_all add: script_def calibration_block_def)
  define cal where "cal = apply_calibration ar p df"
  note unfold = script_def calibration_block_def p cal_def [symmetric] Let_def
  obtain date where date: "representative_date cal = Inr date"
    using assms by (cases "representative_date cal") (simp_all add: unfold)
  obtain marked where marked: "add_markers (visible_series w) cal [PV, Meter, Load] = Inr marked"
    using assms
    by (cases "add_markers (visible_series w) cal [PV, Meter, Load]")
       (simp_all add: unfold date del: add_markers.simps)
  obtain latest where latest: "series_max (map Time cal) = Some latest"
    using assms
    by (cases "series_max (map Time cal)") (simp_all add: unfold date marked del: add_markers.simps)
  have apart: "\<not> to_pydatetime latest \<le> to_pydatetime date"
    using assms
    by (cases "to_pydatetime latest \<le> to_pydatetime date")
       (simp_all add: unfold date marked latest del: add_markers.simps)
  obtain a b where range:
    "(case total_time_range w of None \<Rightarrow> (to_pydatetime date, to_pydatetime latest)
      | Some chosen \<Rightarrow> chosen) = (a, b)"
    by (cases "case total_time_range w of None \<Rightarrow> (to_pydatetime date, to_pydatetime latest)
      | Some chosen \<Rightarrow> chosen")
  have rep: "rep = \<lparr>adjusted_value = evaluate ar p (reading_input w),
                    df_plot = cal,
                    load_summary = summarize ar cal Load,
                    pv_summary = summarize ar cal PV,
                    meter_summary = summarize ar cal Meter,
                    data_date = date,
                    markers = marked,
                    highlights =
                      highlight (highlight_pv w) (show_pv w) cal PV (pv_lower w) (pv_upper w)
                      @ highlight (highlight_meter w) (show_meter w) cal Meter
                          (meter_lower w) (meter_upper w)
                      @ highlight (highlight_load w) (show_load w) cal Load
                          (load_lower w) (load_upper w),
                    harvest_vs_grid = map_option pie_data_total (harvest_grid_split ar cal a b)\<rparr>"
    using assms
    by (simp add: unfold date marked latest apart range del: add_markers.simps)
  have first: "series_min (map Time cal) = Some date"
    using date by (simp add: representative_date_def split: option.splits)
  show ?thesis
    unfolding rep using p marked first
    by (auto simp: cal_def simp del: add_markers.simps)
qed

text \<open>
  Claim C8. When the parser returns, every row has its \<open>Time\<close> cell replaced by the
  timestamp or by the null marker, and the run is the rest of the script on exactly the
  rows that got a timestamp, in their order and with their three power cells. A row whose
  \<open>Time\<close> cell cannot be parsed is dropped with its power cells: when the run reaches
  its end, the preview is the calibration of the kept rows, and the summaries, the date,
  the markers, the highlights and the split are computed from the preview.
\<close>

theorem unparseable_rows_dropped:
  assumes "parse (map Time df_raw) = Inr stamps"
  shows "let kept = List.map_filter
                      (\<lambda>k. case stamps k of
                              None \<Rightarrow> None
                            | Some t \<Rightarrow> Some \<lparr>Time = t, PV_W = PV_W (df_raw ! k),
                                              Meter_W = Meter_W (df_raw ! k),
                                              Load_W = Load_W (df_raw ! k)\<rparr>)
                      [0..<length df_raw]
         in to_datetime parse df_raw
              = Inr (map (\<lambda>k. \<lparr>Time = stamps k, PV_W = PV_W (df_raw ! k),
                                Meter_W = Meter_W (df_raw ! k),
                                Load_W = Load_W (df_raw ! k)\<rparr>) [0..<length df_raw])
            \<and> length kept = length (filter (\<lambda>k. stamps k \<noteq> None) [0..<length df_raw])
            \<and> run ar parse df_raw w = script ar w kept
            \<and> (\<forall>shown rep. run ar parse df_raw w = (shown, Inr rep) \<longrightarrow>
                  (\<exists>p. compute_params ar (min_meter w) (max_meter w) (min_actual w) (max_actual w)
                          = Inr p
                       \<and> df_plot rep = apply_calibration ar p kept)
                  \<and> load_summary rep = summarize ar (df_plot rep) Load
                  \<and> pv_summary rep = summarize ar (df_plot rep) PV
                  \<and> meter_summary rep = summarize ar (df_plot rep) Meter
                  \<and> series_min (map Time (df_plot rep)) = Some (data_date rep)
                  \<and> add_markers (visible_series w) (df_plot rep) [PV, Meter, Load]
                      = Inr (markers rep)
                  \<and> highlights rep
                      = highlight (highlight_pv w) (show_pv w) (df_plot rep) PV
                          (pv_lower w) (pv_upper w)
                        @ highlight (highlight_meter w) (show_meter w) (df_plot rep) Meter
                            (meter_lower w) (meter_upper w)
                        @ highlight (highlight_load w) (show_load w) (df_plot rep) Load
                            (load_lower w) (load_upper w)
                  \<and> (\<exists>interval_start interval_end.
                        harvest_vs_grid rep
                          = map_option pie_data_total
                              (harvest_grid_split ar (df_plot rep) interval_start interval_end)))"
proof -
  define kept where "kept = List.map_filter
                      (\<lambda>k. case stamps k of
                              None \<Rightarrow> None
                            | Some t \<Rightarrow> Some \<lparr>Time = t, PV_W = PV_W (df_raw ! k),
                                              Meter_W = Meter_W (df_raw ! k),
                                              Load_W = Load_W (df_raw ! k)\<rparr>)
                      [0..<length df_raw]"
  have parsed: "to_datetime parse df_raw
           = Inr (map (\<lambda>k. \<lparr>Time = stamps k, PV_W = PV_W (df_raw ! k), Meter_W = Meter_W (df_raw ! k),
                             Load_W = Load_W (df_raw ! k)\<rparr>) [0..<length df_raw])"
    using assms by (simp add: to_datetime_def)
  have count: "length (List.map_filter
                    (\<lambda>k. case stamps k of
                            None \<Rightarrow> None
                          | Some t \<Rightarrow> Some \<lparr>Time = t, PV_W = f k, Meter_W = g k, Load_W = h k\<rparr>) ks)
             = length (filter (\<lambda>k. stamps k \<noteq> None) ks)" for f g h and ks :: "nat list"
    by (induction ks) (auto simp: map_filter_simps split: option.splits)
  have len: "length kept = length (filter (\<lambda>k. stamps k \<noteq> None) [0..<length df_raw])"
    unfolding kept_def by (rule count)
  have run: "run ar parse df_raw w = script ar w kept"
    unfolding run_def parsed kept_def by (simp add: dropna_positions)
  have "(\<exists>p. compute_params ar (min_meter w) (max_meter w) (min_actual w) (max_actual w) = Inr p
             \<and> df_plot rep = apply_calibration ar p kept)
        \<and> load_summary rep = summarize ar (df_plot rep) Load
        \<and> pv_summary rep = summarize ar (df_plot rep) PV
        \<and> meter_summary rep = summarize ar (df_plot rep) Meter
        \<and> series_min (map Time (df_plot rep)) = Some (data_date rep)
        \<and> add_markers (visible_series w) (df_plot rep) [PV, Meter, Load] = Inr (markers rep)
        \<and> highlights rep
            = highlight (highlight_pv w) (show_pv w) (df_plot rep) PV (pv_lower w) (pv_upper w)
              @ highlight (highlight_meter w) (show_meter w) (df_plot rep) Meter
                  (meter_lower w) (meter_upper w)
              @ highlight (highlight_load w) (show_load w) (df_plot rep) Load
                  (load_lower w) (load_upper w)
        \<and> (\<exists>interval_start interval_end.
              harvest_vs_grid rep
                = map_option pie_data_total
                    (harvest_grid_split ar (df_plot rep) interval_start interval_end))"
    if "run ar parse df_raw w = (shown, Inr rep)" for shown rep
    using script_report [of ar w kept shown rep] that run by auto
  with parsed len run show ?thesis
    unfolding Let_def kept_def [symmetric] by blast
qed

theorem unparseable_rows_dropped_witness:
  "sample_parse (map Time sample_table)
     = Inr (\<lambda>k. if k < length (map Time sample_table) then sample_stamp (map Time sample_table ! k)
                else None)
   \<and> to_datetime sample_parse sample_table
     = Inr [\<lparr>Time = Some 1744165200000000000, PV_W = Some 1, Meter_W = Some (- 500), Load_W = Some 650\<rparr>,
            \<lparr>Time = None, PV_W = Some 4, Meter_W = Some 900, Load_W = Some 904\<rparr>,
            \<lparr>Time = Some 1744165500000000000, PV_W = Some 8, Meter_W = Some 300, Load_W = Some 410\<rparr>,
            \<lparr>Time = Some 1744165800000000000, PV_W = Some 0, Meter_W = Some 500, Load_W = Some 700\<rparr>]
   \<and> run Binary64 sample_parse sample_table sample_widgets = script Binary64 sample_widgets sample_frame
   \<and> (\<exists>shown rep p.
         run Binary64 sample_parse sample_table sample_widgets = (shown, Inr rep)
         \<and> compute_params Binary64 (min_meter sample_widgets) (max_meter sample_widgets)
              (min_actual sample_widgets) (max_actual sample_widgets) = Inr p
         \<and> df_plot rep = apply_calibration Binary64 p sample_frame
         \<and> pv_summary rep = summarize Binary64 (df_plot rep) PV
         \<and> meter_summary rep = summarize Binary64 (df_plot rep) Meter
         \<and> load_summary rep = summarize Binary64 (df_plot rep) Load)
   \<and> summarize Binary64 (apply_calibration Binary64 \<lparr>scale = 1, offset = 0\<rparr> sample_frame) Load
       = \<lparr>total = 7926335344172073 / 2 ^ 52, minimum = Some (7385903388887613 / 2 ^ 54),
          maximum = Some (3152519739159347 / 2 ^ 52), average = Some (5284223562781382 / 2 ^ 53)\<rparr>"
proof -
  let ?stamps = "\<lambda>k. if k < length (map Time sample_table)
                      then sample_stamp (map Time sample_table ! k) else None"
  have parse: "sample_parse (map Time sample_table) = Inr ?stamps"
    by (simp add: sample_parse_def)
  have kept: "List.map_filter
          (\<lambda>k. case ?stamps k of
                  None \<Rightarrow> None
                | Some t \<Rightarrow> Some \<lparr>Time = t, PV_W = PV_W (sample_table ! k),
                                  Meter_W = Meter_W (sample_table ! k),
                                  Load_W = Load_W (sample_table ! k)\<rparr>)
          [0..<length sample_table]
       = sample_frame"
    by code_simp
  have shown: "map (\<lambda>k. \<lparr>Time = ?stamps k,
                         PV_W = PV_W (sample_table ! k), Meter_W = Meter_W (sample_table ! k),
                         Load_W = Load_W (sample_table ! k)\<rparr>) [0..<length sample_table]
     = [\<lparr>Time = Some 1744165200000000000, PV_W = Some 1, Meter_W = Some (- 500), Load_W = Some 650\<rparr>,
        \<lparr>Time = None, PV_W = Some 4, Meter_W = Some 900, Load_W = Some 904\<rparr>,
        \<lparr>Time = Some 1744165500000000000, PV_W = Some 8, Meter_W = Some 300, Load_W = Some 410\<rparr>,
        \<lparr>Time = Some 1744165800000000000, PV_W = Some 0, Meter_W = Some 500, Load_W = Some 700\<rparr>]"
    by code_simp
  have ends: "\<not> isl (snd (run Binary64 sample_parse sample_table sample_widgets))"
    by code_simp
  then obtain shown rep where r: "run Binary64 sample_parse sample_table sample_widgets = (shown, Inr rep)"
    by (cases "run Binary64 sample_parse sample_table sample_widgets";
        cases "snd (run Binary64 sample_parse sample_table sample_widgets)") auto
  have load: "summarize Binary64 (apply_calibration Binary64 \<lparr>scale = 1, offset = 0\<rparr> sample_frame) Load
       = \<lparr>total = 7926335344172073 / 2 ^ 52, minimum = Some (7385903388887613 / 2 ^ 54),
          maximum = Some (3152519739159347 / 2 ^ 52), average = Some (5284223562781382 / 2 ^ 53)\<rparr>"
    by code_simp
  note dropped = unparseable_rows_dropped
      [where parse = sample_parse and df_raw = sample_table and ar = Binary64 and w = sample_widgets
         and stamps = ?stamps, OF parse, unfolded Let_def kept shown]
  from dropped r have "\<exists>p. compute_params Binary64 (min_meter sample_widgets) (max_meter sample_widgets)
              (min_actual sample_widgets) (max_actual sample_widgets) = Inr p
         \<and> df_plot rep = apply_calibration Binary64 p sample_frame
         \<and> pv_summary rep = summarize Binary64 (df_plot rep) PV
         \<and> meter_summary rep = summarize Binary64 (df_plot rep) Meter
         \<and> load_summary rep = summarize Binary64 (df_plot rep) Load"
    by blast
  with dropped r parse load show ?thesis by blast
qed

subsection \<open>Highlighting by range\<close>

text \<open>
  Claim C9. The selection holds exactly the rows whose cell of the column holds a value
  that lies between the lower and the upper threshold, both included. When the lower
  threshold is above the upper one the selection is empty; it is an ordinary value, and
  the only effect is that no highlight trace is added.
\<close>

theorem filter_range_closed_interval:
  "filter_range df col lower upper
     = filter (\<lambda>r. \<exists>v. channel_value col r = Some v \<and> lower \<le> v \<and> v \<le> upper) df
   \<and> set (filter_range df col lower upper)
     = {r \<in> set df. \<exists>v. channel_value col r = Some v \<and> lower \<le> v \<and> v \<le> upper}
   \<and> (upper < lower \<longrightarrow>
        filter_range df col lower upper = []
        \<and> highlight checked shown df col lower upper = [])"
proof -
  have pred: "(\<lambda>r. case channel_value col r of None \<Rightarrow> False | Some v \<Rightarrow> lower \<le> v \<and> v \<le> upper)
              = (\<lambda>r. \<exists>v. channel_value col r = Some v \<and> lower \<le> v \<and> v \<le> upper)"
    by (rule ext) (simp split: option.splits)
  show ?thesis
    unfolding filter_range_def highlight_def pred
    by (auto simp: filter_empty_conv)
qed

theorem filter_range_closed_interval_witness:
  "(0::real) < 8
   \<and> filter_range sample_frame PV 8 0 = []
   \<and> highlight True True sample_frame PV 8 0 = []
   \<and> filter_range sample_frame PV 1 8
       = [\<lparr>Time = 1744165200000000000, PV_W = Some 1, Meter_W = Some (- 500), Load_W = Some 650\<rparr>,
          \<lparr>Time = 1744165500000000000, PV_W = Some 8, Meter_W = Some 300, Load_W = Some 410\<rparr>]"
proof -
  have "filter_range sample_frame PV 1 8
       = [\<lparr>Time = 1744165200000000000, PV_W = Some 1, Meter_W = Some (- 500), Load_W = Some 650\<rparr>,
          \<lparr>Time = 1744165500000000000, PV_W = Some 8, Meter_W = Some 300, Load_W = Some 410\<rparr>]"
    by code_simp
  with filter_range_closed_interval [of sample_frame PV 8 0 True True]
  show ?thesis by simp
qed

subsection \<open>Total load of the split\<close>

text \<open>
  Claim C10, as amended. When the interval selects rows, the solar total is the sum of
  their PV cells over 1000, the grid total is the sum of the absolute values of their
  meter cells over 1000, and the total load of line 400 is the one addition of these two;
  when it selects none there are no totals. The \<open>Load_W\<close> column is never read:
  replacing it by anything leaves the result unchanged. The data of the chart are the
  solar and the grid total.
\<close>

theorem harvest_total_load_by_construction:
  "harvest_grid_split ar df interval_start interval_end
     = (let df_total = filter (\<lambda>r. interval_start \<le> Time r \<and> Time r \<le> interval_end) df;
            total_pv = rnd ar (series_sum ar (map PV_W df_total) / 1000);
            total_meter_abs =
              rnd ar (series_sum ar (map (\<lambda>r. map_option abs (Meter_W r)) df_total) / 1000)
        in if df_total = [] then None
           else Some \<lparr>solar_kw = total_pv, grid_kw = total_meter_abs,
                      load_kw = rnd ar (total_pv + total_meter_abs)\<rparr>)
   \<and> harvest_grid_split Exact df interval_start interval_end
     = (let df_total = filter (\<lambda>r. interval_start \<le> Time r \<and> Time r \<le> interval_end) df;
            total_pv = (\<Sum>v\<leftarrow>present (map PV_W df_total). v) / 1000;
            total_meter_abs = (\<Sum>v\<leftarrow>present (map Meter_W df_total). \<bar>v\<bar>) / 1000
        in if df_total = [] then None
           else Some \<lparr>solar_kw = total_pv, grid_kw = total_meter_abs,
                      load_kw = total_pv + total_meter_abs\<rparr>)
   \<and> harvest_grid_split ar (map (\<lambda>r. r\<lparr>Load_W := other r\<rparr>) df) interval_start interval_end
       = harvest_grid_split ar df interval_start interval_end
   \<and> map_option pie_data_total (harvest_grid_split ar df interval_start interval_end)
       = map_option (\<lambda>totals. [(''SOLAR'', solar_kw totals), (''GRID'', grid_kw totals)])
           (harvest_grid_split ar df interval_start interval_end)"
proof -
  have sel: "filter (\<lambda>r. interval_start \<le> Time r \<and> Time r \<le> interval_end)
               (map (\<lambda>r. r\<lparr>Load_W := other r\<rparr>) df)
             = map (\<lambda>r. r\<lparr>Load_W := other r\<rparr>)
                 (filter (\<lambda>r. interval_start \<le> Time r \<and> Time r \<le> interval_end) df)"
    by (simp add: filter_map comp_def)
  have unread: "harvest_grid_split ar (map (\<lambda>r. r\<lparr>Load_W := other r\<rparr>) df) interval_start interval_end
       = harvest_grid_split ar df interval_start interval_end"
    unfolding harvest_grid_split_def sel by (simp add: Let_def comp_def)
  have exact: "harvest_grid_split Exact df interval_start interval_end
     = (let df_total = filter (\<lambda>r. interval_start \<le> Time r \<and> Time r \<le> interval_end) df;
            total_pv = (\<Sum>v\<leftarrow>present (map PV_W df_total). v) / 1000;
            total_meter_abs = (\<Sum>v\<leftarrow>present (map Meter_W df_total). \<bar>v\<bar>) / 1000
        in if df_total = [] then None
           else Some \<lparr>solar_kw = total_pv, grid_kw = total_meter_abs,
                      load_kw = total_pv + total_meter_abs\<rparr>)"
    by (simp add: harvest_grid_split_def Let_def series_sum_exact present_map_option fadd_def)
  have shown: "map_option pie_data_total (harvest_grid_split ar df interval_start interval_end)
       = map_option (\<lambda>totals. [(''SOLAR'', solar_kw totals), (''GRID'', grid_kw totals)])
           (harvest_grid_split ar df interval_start interval_end)"
    by (simp add: pie_data_total_def [abs_def])
  have "harvest_grid_split ar df interval_start interval_end
     = (let df_total = filter (\<lambda>r. interval_start \<le> Time r \<and> Time r \<le> interval_end) df;
            total_pv = rnd ar (series_sum ar (map PV_W df_total) / 1000);
            total_meter_abs =
              rnd ar (series_sum ar (map (\<lambda>r. map_option abs (Meter_W r)) df_total) / 1000)
        in if df_total = [] then None
           else Some \<lparr>solar_kw = total_pv, grid_kw = total_meter_abs,
                      load_kw = rnd ar (total_pv + total_meter_abs)\<rparr>)"
    by (simp add: harvest_grid_split_def Let_def fadd_def)
  with exact unread shown show ?thesis by blast
qed

text \<open>
  The claim as stated, on the sample: the total load is computed, and it is not among the
  values the run shows for the split, which are the solar and the grid total.
\<close>

theorem total_load_not_shown_counterexample:
  "harvest_grid_split Binary64 sample_frame 1744165200000000000 1744165800000000000
     = Some \<lparr>solar_kw = 5188146770730811 / 2 ^ 59,
             grid_kw = 5854679515581645 / 2 ^ 52,
             load_kw = 5895211912227979 / 2 ^ 52\<rparr>
   \<and> map_sum (\<lambda>e. e) harvest_vs_grid (snd (run Binary64 sample_parse sample_table sample_widgets))
     = Inr (Some [(''SOLAR'', 5188146770730811 / 2 ^ 59), (''GRID'', 5854679515581645 / 2 ^ 52)])
   \<and> (5895211912227979 / 2 ^ 52 :: real)
       \<notin> snd ` set [(''SOLAR'', 5188146770730811 / 2 ^ 59), (''GRID'', 5854679515581645 / 2 ^ 52)]"
  by code_simp

end
